theory Spec2Isabelle
  imports Complex_Main
begin

section \<open>Python values, exceptions and the outside world\<close>

text \<open>
  The embedding follows \<^verbatim>\<open>summarize.py\<close>. A value returned by \<^verbatim>\<open>json.loads\<close> is a \<open>json\<close>;
  Python's \<^verbatim>\<open>None\<close> is \<open>JNull\<close>, and a \<^verbatim>\<open>dict\<close> is the list of its items in insertion order
  (the keys of a dict are distinct). Numbers are exact reals: the rounding of Python's
  floats, \<^verbatim>\<open>NaN\<close> and the infinities are outside the model, so \<^verbatim>\<open>time.time()\<close> is a real
  number of seconds. Functions keep their Python names, without the leading underscore.
\<close>

datatype json =
    JNull
  | JBool bool
  | JNum real
  | JStr string
  | JArr "json list"
  | JObj "(string \<times> json) list"

text \<open>
  Every way a call of the program can stop early: \<^verbatim>\<open>sys.exit(n)\<close> and the exceptions
  that nothing catches. \<open>LibraryError\<close> stands for an exception raised inside pdfminer,
  requests or Playwright (a timeout, a broken document, an unreachable host).
\<close>

datatype py_error =
    SystemExit nat
  | TypeError
  | AttributeError
  | KeyError
  | IndexError
  | ValueError
  | UnicodeDecodeError
  | RuntimeError
  | OSError
  | LibraryError

text \<open>
  What \<^verbatim>\<open>json.loads(path.read_text())\<close> meets on disk: no file, a file that cannot be read
  (\<^verbatim>\<open>OSError\<close>), text that is not JSON (\<^verbatim>\<open>JSONDecodeError\<close>), bytes that are not text in
  the locale's encoding (\<^verbatim>\<open>UnicodeDecodeError\<close>, a \<^verbatim>\<open>ValueError\<close> that neither \<^verbatim>\<open>except\<close>
  clause of the program lists), or a JSON document.
\<close>

datatype file_state =
    Missing
  | Unreadable
  | Invalid_json
  | Bad_encoding
  | Parsed json

text \<open>Extracted text is a list of Unicode code points, as a Python \<^verbatim>\<open>str\<close> is.\<close>

type_synonym pystr = "nat list"

text \<open>
  The effects of a run, in the order they happen: what is printed (\<open>Say\<close> on standard
  output, \<open>Err\<close> and \<open>Warn\<close> on standard error), the sleeps, the reads and writes of files
  and the network requests.
\<close>

datatype event =
    Say_waiting real
  | Sleep real
  | Err_rate_limit_reached real
  | Write_rate_limit_file "json list"
  | Probe_path string
  | Stat_path string
  | Say_downloading string
  | Http_get string json
  | Err_download_failed nat
  | Say_extracting_url string
  | Browser_visit string
  | Warn_little_text_page
  | Err_file_not_found string
  | Err_file_too_large
  | Say_extracting_pdf string
  | Pdfminer_read string
  | Warn_little_text_pdf
  | Say_requesting
  | Http_post pystr json
  | Say_debug
  | Err_api_rate_limited
  | Err_api_http nat
  | Err_no_summary
  | Write_output "string option"

text \<open>
  The state a run changes: the rate-limit history file \<^verbatim>\<open>.rate_limit_log\<close> and the
  effects so far.
\<close>

record world =
  rate_file :: file_state
  events :: "event list"

definition emit :: "event list \<Rightarrow> world \<Rightarrow> world" where
  "emit es w = w\<lparr>events := events w @ es\<rparr>"

subsection \<open>Python's view of a JSON value\<close>

text \<open>Truthiness, as \<^verbatim>\<open>if x:\<close> and \<^verbatim>\<open>not x\<close> test it.\<close>

fun truthy :: "json \<Rightarrow> bool" where
  "truthy JNull = False"
| "truthy (JBool b) = b"
| "truthy (JNum x) = (x \<noteq> 0)"
| "truthy (JStr s) = (s \<noteq> [])"
| "truthy (JArr xs) = (xs \<noteq> [])"
| "truthy (JObj kvs) = (kvs \<noteq> [])"

text \<open>
  The values \<^verbatim>\<open>now - ts\<close> accepts: numbers, and the booleans, which Python counts as 1
  and 0. On anything else the subtraction raises \<^verbatim>\<open>TypeError\<close>; \<open>num\<close> is read only where
  \<open>is_num\<close> holds.
\<close>

fun is_num :: "json \<Rightarrow> bool" where
  "is_num (JNum x) = True"
| "is_num (JBool b) = True"
| "is_num j = False"

fun num :: "json \<Rightarrow> real" where
  "num (JNum x) = x"
| "num (JBool b) = (if b then 1 else 0)"
| "num j = 0"

text \<open>
  What a \<^verbatim>\<open>for\<close> loop over the value visits: the elements of a list, the characters of a
  string, the keys of a dict; a number, a boolean and \<^verbatim>\<open>None\<close> are not iterable.
\<close>

fun py_iter :: "json \<Rightarrow> py_error + json list" where
  "py_iter (JArr xs) = Inr xs"
| "py_iter (JStr s) = Inr (map (\<lambda>c. JStr [c]) s)"
| "py_iter (JObj kvs) = Inr (map (\<lambda>kv. JStr (fst kv)) kvs)"
| "py_iter j = Inl TypeError"

text \<open>\<^verbatim>\<open>max(xs)\<close> and \<^verbatim>\<open>min(xs)\<close>, which raise \<^verbatim>\<open>ValueError\<close> on an empty list.\<close>

fun py_max :: "real list \<Rightarrow> py_error + real" where
  "py_max [] = Inl ValueError"
| "py_max (x # xs) = Inr (fold max xs x)"

fun py_min :: "real list \<Rightarrow> py_error + real" where
  "py_min [] = Inl ValueError"
| "py_min (x # xs) = Inr (fold min xs x)"

section \<open>Rate limiting\<close>

definition MIN_INTERVAL_SECONDS :: real where
  "MIN_INTERVAL_SECONDS = 5"

definition MAX_REQUESTS_PER_HOUR :: nat where
  "MAX_REQUESTS_PER_HOUR = 10"

definition window :: real where
  "window = 3600"

text \<open>
  Lines 45 to 50 of \<^verbatim>\<open>check_rate_limit\<close>, repeated as lines 80 to 85 of \<^verbatim>\<open>record_request\<close>:
  the history is empty when the file does not exist and when reading it raises
  \<^verbatim>\<open>JSONDecodeError\<close> or \<^verbatim>\<open>OSError\<close>.
\<close>

fun load_timestamps :: "file_state \<Rightarrow> py_error + json" where
  "load_timestamps Missing = Inr (JArr [])"
| "load_timestamps Unreadable = Inr (JArr [])"
| "load_timestamps Invalid_json = Inr (JArr [])"
| "load_timestamps Bad_encoding = Inl UnicodeDecodeError"
| "load_timestamps (Parsed j) = Inr j"

text \<open>
  The comprehension \<^verbatim>\<open>[ts for ts in timestamps if now - ts < window]\<close> of lines 53 and 87,
  on the elements the loop visits.
\<close>

fun prune :: "real \<Rightarrow> json list \<Rightarrow> py_error + json list" where
  "prune now [] = Inr []"
| "prune now (ts # rest) =
     (if \<not> is_num ts then Inl TypeError
      else case prune now rest of
             Inl e \<Rightarrow> Inl e
           | Inr kept \<Rightarrow> Inr (if now - num ts < window then ts # kept else kept))"

definition load_pruned :: "real \<Rightarrow> file_state \<Rightarrow> py_error + json list" where
  "load_pruned now f =
     (case load_timestamps f of
        Inl e \<Rightarrow> Inl e
      | Inr j \<Rightarrow> (case py_iter j of Inl e \<Rightarrow> Inl e | Inr items \<Rightarrow> prune now items))"

text \<open>
  \<^verbatim>\<open>check_rate_limit\<close>, with \<open>now\<close> the value \<^verbatim>\<open>time.time()\<close> returns on line 42. The
  minimum-interval check of lines 56 to 61 comes first, the hourly maximum of lines 64
  to 72 second.
\<close>

definition check_rate_limit :: "real \<Rightarrow> world \<Rightarrow> (py_error + unit) \<times> world" where
  "check_rate_limit now w =
     (case load_pruned now (rate_file w) of
        Inl e \<Rightarrow> (Inl e, w)
      | Inr timestamps \<Rightarrow>
          (case (if timestamps \<noteq> []
                 then (case py_max (map num timestamps) of
                         Inl e \<Rightarrow> Inl e
                       | Inr newest \<Rightarrow>
                           (let elapsed = now - newest in
                            if elapsed < MIN_INTERVAL_SECONDS
                            then (let wait = MIN_INTERVAL_SECONDS - elapsed
                                  in Inr (emit [Say_waiting wait, Sleep wait] w))
                            else Inr w))
                 else Inr w) of
             Inl e \<Rightarrow> (Inl e, w)
           | Inr w1 \<Rightarrow>
               if length timestamps \<ge> MAX_REQUESTS_PER_HOUR
               then (case py_min (map num timestamps) of
                       Inl e \<Rightarrow> (Inl e, w1)
                     | Inr oldest \<Rightarrow>
                         (let retry_after = window - (now - oldest)
                          in (Inl (SystemExit 1), emit [Err_rate_limit_reached retry_after] w1)))
               else (Inr (), w1)))"

text \<open>
  \<^verbatim>\<open>record_request\<close>, with \<open>now\<close> the value \<^verbatim>\<open>time.time()\<close> returns on line 77. What
  \<^verbatim>\<open>json.dumps\<close> writes is what \<^verbatim>\<open>json.loads\<close> reads back.
\<close>

definition record_request :: "real \<Rightarrow> world \<Rightarrow> (py_error + unit) \<times> world" where
  "record_request now w =
     (case load_pruned now (rate_file w) of
        Inl e \<Rightarrow> (Inl e, w)
      | Inr timestamps \<Rightarrow>
          (let timestamps' = timestamps @ [JNum now]
           in (Inr (), emit [Write_rate_limit_file timestamps']
                         (w\<lparr>rate_file := Parsed (JArr timestamps')\<rparr>))))"

section \<open>Proxy rotation\<close>

text \<open>
  \<^verbatim>\<open>config.get(key, default)\<close>: only a dict has the method, so any other JSON document in
  the configuration file raises \<^verbatim>\<open>AttributeError\<close>.
\<close>

fun py_get :: "json \<Rightarrow> string \<Rightarrow> json \<Rightarrow> py_error + json" where
  "py_get (JObj kvs) k d = Inr (case map_of kvs k of None \<Rightarrow> d | Some v \<Rightarrow> v)"
| "py_get j k d = Inl AttributeError"

text \<open>
  \<^verbatim>\<open>random.choice(seq)\<close> is \<^verbatim>\<open>seq[i]\<close> for a random \<open>i\<close> below \<^verbatim>\<open>len(seq)\<close>; \<open>r\<close> is the random
  source. A dict read from JSON has string keys only, so indexing it by \<open>i\<close> raises
  \<^verbatim>\<open>KeyError\<close>; a number or a boolean has no length.
\<close>

fun random_choice :: "nat \<Rightarrow> json \<Rightarrow> py_error + json" where
  "random_choice r (JArr xs) =
     (if xs = [] then Inl IndexError else Inr (xs ! (r mod length xs)))"
| "random_choice r (JStr s) =
     (if s = [] then Inl IndexError else Inr (JStr [s ! (r mod length s)]))"
| "random_choice r (JObj kvs) = (if kvs = [] then Inl IndexError else Inl KeyError)"
| "random_choice r j = Inl TypeError"

definition no_proxy_config :: json where
  "no_proxy_config = JObj [(''enabled'', JBool False), (''proxies'', JArr [])]"

text \<open>\<^verbatim>\<open>_load_proxy_config\<close>, on the state of \<^verbatim>\<open>~/.scholar-proxies.json\<close>.\<close>

fun load_proxy_config :: "file_state \<Rightarrow> py_error + json" where
  "load_proxy_config Missing = Inr no_proxy_config"
| "load_proxy_config Unreadable = Inr no_proxy_config"
| "load_proxy_config Invalid_json = Inr no_proxy_config"
| "load_proxy_config Bad_encoding = Inl UnicodeDecodeError"
| "load_proxy_config (Parsed j) = Inr j"

text \<open>
  \<^verbatim>\<open>_get_proxy_url\<close>: \<open>force\<close> is the module's \<^verbatim>\<open>_PROXY_FORCE\<close>, \<open>cfg\<close> the configuration file
  and \<open>r\<close> the random source. The result \<open>JNull\<close> is Python's \<^verbatim>\<open>None\<close>.
\<close>

definition get_proxy_url :: "bool option \<Rightarrow> file_state \<Rightarrow> nat \<Rightarrow> py_error + json" where
  "get_proxy_url force cfg r =
     (case load_proxy_config cfg of
        Inl e \<Rightarrow> Inl e
      | Inr config \<Rightarrow>
          (case (case force of
                   Some b \<Rightarrow> Inr (JBool b)
                 | None \<Rightarrow> py_get config ''enabled'' (JBool False)) of
             Inl e \<Rightarrow> Inl e
           | Inr enabled \<Rightarrow>
               if \<not> truthy enabled then Inr JNull
               else (case py_get config ''proxies'' (JArr []) of
                       Inl e \<Rightarrow> Inl e
                     | Inr proxies \<Rightarrow>
                         if \<not> truthy proxies then Inr JNull
                         else random_choice r proxies)))"

text \<open>\<^verbatim>\<open>_get_proxy\<close>: the proxy dict for the requests library, or \<^verbatim>\<open>None\<close>.\<close>

definition get_proxy :: "bool option \<Rightarrow> file_state \<Rightarrow> nat \<Rightarrow> py_error + json" where
  "get_proxy force cfg r =
     (case get_proxy_url force cfg r of
        Inl e \<Rightarrow> Inl e
      | Inr url \<Rightarrow>
          if \<not> truthy url then Inr JNull
          else Inr (JObj [(''http'', url), (''https'', url)]))"

section \<open>The environment of a run\<close>

text \<open>
  What the program reads from outside and does not decide: the module global
  \<^verbatim>\<open>_PROXY_FORCE\<close>, the proxy configuration file, the random source, the clock at the two
  places that read it, the file system, and the three libraries. \<open>pdfminer\<close> is
  \<^verbatim>\<open>extract_text\<close> on a local path; \<open>browser\<close> is the Playwright session of lines 234 to
  246 (launch, navigation, the Cloudflare wait, the two \<^verbatim>\<open>page.evaluate\<close> calls, close),
  giving the page's text and its title (\<open>None\<close> for JavaScript's \<^verbatim>\<open>null\<close>).

  Two probes of the file system can raise. \<^verbatim>\<open>Path.expanduser()\<close> raises \<^verbatim>\<open>RuntimeError\<close> when
  the path starts with \<^verbatim>\<open>~user\<close> and there is no such user. \<^verbatim>\<open>Path.exists()\<close> answers false
  when the path or one of its directories is missing, and raises the \<^verbatim>\<open>OSError\<close> of
  \<^verbatim>\<open>stat()\<close> when the path cannot be examined (no permission to search a directory, a
  name that is too long). \<^verbatim>\<open>Path.resolve()\<close> and the \<^verbatim>\<open>stat()\<close> that follows a successful
  \<^verbatim>\<open>exists()\<close> on the same path are taken to return.
\<close>

record get_response =
  get_status :: nat
  get_pdf_text :: "py_error + pystr"

record post_response =
  post_status :: nat
  post_json :: "json option"

record env =
  PROXY_FORCE :: "bool option"
  proxy_file :: file_state
  random_draw :: nat
  time_at_check :: real
  time_at_record :: real
  expanduser :: "string \<Rightarrow> py_error + string"
  resolve :: "string \<Rightarrow> string"
  path_exists :: "string \<Rightarrow> py_error + bool"
  st_size :: "string \<Rightarrow> nat"
  pdfminer :: "string \<Rightarrow> py_error + pystr"
  requests_get :: "string \<Rightarrow> json \<Rightarrow> py_error + get_response"
  browser :: "string \<Rightarrow> py_error + (pystr \<times> pystr option)"
  requests_post :: "pystr \<Rightarrow> json \<Rightarrow> py_error + post_response"

text \<open>
  \<^verbatim>\<open>resp.ok\<close> of the requests library: false exactly for the statuses from 400 to 599.
\<close>

definition ok :: "nat \<Rightarrow> bool" where
  "ok status = (\<not> (400 \<le> status \<and> status < 600))"

section \<open>Strings\<close>

definition newline :: char where
  "newline = CHR 0x0A"

definition startswith :: "string \<Rightarrow> string \<Rightarrow> bool" where
  "startswith s p = (take (length p) s = p)"

text \<open>
  The code points \<^verbatim>\<open>str.strip()\<close> removes: those for which \<^verbatim>\<open>str.isspace()\<close> holds.
\<close>

definition py_isspace :: "nat \<Rightarrow> bool" where
  "py_isspace c =
     (c \<in> set [9, 10, 11, 12, 13, 28, 29, 30, 31, 32, 133, 160, 5760,
               8192, 8193, 8194, 8195, 8196, 8197, 8198, 8199, 8200, 8201, 8202,
               8232, 8233, 8239, 8287, 12288])"

definition strip :: "pystr \<Rightarrow> pystr" where
  "strip s = rev (dropWhile py_isspace (rev (dropWhile py_isspace s)))"

section \<open>Content extraction\<close>

subsection \<open>Academic landing pages\<close>

text \<open>
  \<^verbatim>\<open>_rewrite_to_pdf_url\<close> matches the URL against
  \<^verbatim>\<open>https?://arxiv\.org/abs/(.+?)(?:\?.*)?$\<close> and the same pattern with \<^verbatim>\<open>html\<close>. The
  matcher below is that pattern, piece by piece. \<open>at_end\<close> is \<^verbatim>\<open>$\<close>: the end of the
  string, or the place before a newline that ends it. \<open>query_tail\<close> is \<^verbatim>\<open>(?:\?.*)?$\<close>: a
  question mark and characters other than newline up to \<^verbatim>\<open>$\<close>, or nothing and \<^verbatim>\<open>$\<close>.
  \<open>lazy_group\<close> is the rest of \<^verbatim>\<open>(.+?)\<close> once it holds \<open>taken\<close>: it stops at the first place
  where the tail matches, and else takes one more character that is not a newline.
\<close>

definition at_end :: "string \<Rightarrow> bool" where
  "at_end r = (r = [] \<or> r = [newline])"

definition query_tail :: "string \<Rightarrow> bool" where
  "query_tail r =
     ((case r of
         [] \<Rightarrow> False
       | c # q \<Rightarrow> c = CHR ''?'' \<and> at_end (dropWhile (\<lambda>d. d \<noteq> newline) q))
      \<or> at_end r)"

fun lazy_group :: "string \<Rightarrow> string \<Rightarrow> string option" where
  "lazy_group taken [] = (if query_tail [] then Some taken else None)"
| "lazy_group taken (c # cs) =
     (if query_tail (c # cs) then Some taken
      else if c = newline then None
      else lazy_group (taken @ [c]) cs)"

definition dot_plus_lazy :: "string \<Rightarrow> string option" where
  "dot_plus_lazy r =
     (case r of
        [] \<Rightarrow> None
      | c # cs \<Rightarrow> if c = newline then None else lazy_group [c] cs)"

definition match_from :: "string \<Rightarrow> string \<Rightarrow> string option" where
  "match_from kind r =
     (let lit = ''://arxiv.org/'' @ kind @ ''/''
      in if startswith r lit then dot_plus_lazy (drop (length lit) r) else None)"

text \<open>
  \<^verbatim>\<open>re.match\<close> of the whole pattern, giving group 1: \<^verbatim>\<open>http\<close>, then \<^verbatim>\<open>s?\<close>, which first tries
  to take an \<^verbatim>\<open>s\<close> and falls back to taking none, then the rest.
\<close>

definition arxiv_match :: "string \<Rightarrow> string \<Rightarrow> string option" where
  "arxiv_match kind url =
     (if \<not> startswith url ''http'' then None
      else (let r = drop 4 url
            in case (if startswith r ''s'' then match_from kind (drop 1 r) else None) of
                 Some g \<Rightarrow> Some g
               | None \<Rightarrow> match_from kind r))"

definition rewrite_to_pdf_url :: "string \<Rightarrow> string option" where
  "rewrite_to_pdf_url url =
     (case arxiv_match ''abs'' url of
        Some g \<Rightarrow> Some (''https://arxiv.org/pdf/'' @ g)
      | None \<Rightarrow>
          (case arxiv_match ''html'' url of
             Some g \<Rightarrow> Some (''https://arxiv.org/pdf/'' @ g)
           | None \<Rightarrow> None))"

subsection \<open>The extractors\<close>

text \<open>
  \<^verbatim>\<open>_download_pdf_text\<close>. The body goes to a temporary file that pdfminer reads and that
  is removed whatever pdfminer does; \<open>get_pdf_text\<close> is what pdfminer gives on it.
\<close>

definition download_pdf_text ::
  "env \<Rightarrow> string \<Rightarrow> world \<Rightarrow> (py_error + pystr \<times> pystr option) \<times> world" where
  "download_pdf_text env url w =
     (let w1 = emit [Say_downloading url] w
      in case get_proxy (PROXY_FORCE env) (proxy_file env) (random_draw env) of
           Inl e \<Rightarrow> (Inl e, w1)
         | Inr proxies \<Rightarrow>
             (let w2 = emit [Http_get url proxies] w1
              in case requests_get env url proxies of
                   Inl e \<Rightarrow> (Inl e, w2)
                 | Inr resp \<Rightarrow>
                     if \<not> ok (get_status resp)
                     then (Inl (SystemExit 1), emit [Err_download_failed (get_status resp)] w2)
                     else (case get_pdf_text resp of
                             Inl e \<Rightarrow> (Inl e, w2)
                           | Inr extracted \<Rightarrow> (Inr (strip extracted, None), w2))))"

text \<open>Lines 233 to 251 of \<^verbatim>\<open>_extract_text_from_url\<close>: the browser visit.\<close>

definition browse_page ::
  "env \<Rightarrow> string \<Rightarrow> world \<Rightarrow> (py_error + pystr \<times> pystr option) \<times> world" where
  "browse_page env url w =
     (let w1 = emit [Say_extracting_url url, Browser_visit url] w
      in case browser env url of
           Inl e \<Rightarrow> (Inl e, w1)
         | Inr (page_text, page_title) \<Rightarrow>
             (Inr (page_text, page_title),
              if page_text = [] \<or> length page_text < 50
              then emit [Warn_little_text_page] w1 else w1))"

text \<open>
  \<^verbatim>\<open>_extract_text_from_url\<close>: \<^verbatim>\<open>if pdf_url:\<close> holds for a string that is not empty.
\<close>

definition extract_text_from_url ::
  "env \<Rightarrow> string \<Rightarrow> world \<Rightarrow> (py_error + pystr \<times> pystr option) \<times> world" where
  "extract_text_from_url env url w =
     (case rewrite_to_pdf_url url of
        Some pdf_url \<Rightarrow>
          if pdf_url \<noteq> [] then download_pdf_text env pdf_url w else browse_page env url w
      | None \<Rightarrow> browse_page env url w)"

text \<open>\<^verbatim>\<open>_extract_text_from_pdf\<close>, for a local file.\<close>

definition extract_text_from_pdf ::
  "env \<Rightarrow> string \<Rightarrow> world \<Rightarrow> (py_error + pystr) \<times> world" where
  "extract_text_from_pdf env pdf_path w =
     (let pdf_file = resolve env pdf_path;
          w1 = emit [Probe_path pdf_file] w
      in case path_exists env pdf_file of
           Inl e \<Rightarrow> (Inl e, w1)
         | Inr found \<Rightarrow>
             if \<not> found
             then (Inl (SystemExit 1), emit [Err_file_not_found pdf_file] w1)
             else (let w2 = emit [Stat_path pdf_file] w1
                   in if st_size env pdf_file > 50 * 1024 * 1024
                      then (Inl (SystemExit 1), emit [Err_file_too_large] w2)
                      else (let w3 = emit [Say_extracting_pdf pdf_file,
                                           Pdfminer_read pdf_file] w2
                            in case pdfminer env pdf_file of
                                 Inl e \<Rightarrow> (Inl e, w3)
                               | Inr extracted \<Rightarrow>
                                   (Inr (strip extracted),
                                    if extracted = [] \<or> length (strip extracted) < 50
                                    then emit [Warn_little_text_pdf] w3 else w3))))"


section \<open>The Gistify API call\<close>

text \<open>
  \<^verbatim>\<open>summarize_content\<close>. \<open>post_json\<close> is \<^verbatim>\<open>resp.json()\<close>, \<open>None\<close> when the body is not JSON
  and the call raises. The debug output is one event: its \<^verbatim>\<open>try\<close> catches every
  exception.
\<close>

definition summarize_content ::
  "env \<Rightarrow> pystr \<Rightarrow> bool \<Rightarrow> world \<Rightarrow> (py_error + json) \<times> world" where
  "summarize_content env content dbg w =
     (let w1 = emit [Say_requesting] w
      in case get_proxy (PROXY_FORCE env) (proxy_file env) (random_draw env) of
           Inl e \<Rightarrow> (Inl e, w1)
         | Inr proxies \<Rightarrow>
             (let w2 = emit [Http_post content proxies] w1
              in case requests_post env content proxies of
                   Inl e \<Rightarrow> (Inl e, w2)
                 | Inr resp \<Rightarrow>
                     (let w3 = (if dbg then emit [Say_debug] w2 else w2)
                      in if post_status resp = 429
                         then (Inl (SystemExit 1), emit [Err_api_rate_limited] w3)
                         else if \<not> ok (post_status resp)
                         then (Inl (SystemExit 1), emit [Err_api_http (post_status resp)] w3)
                         else (case post_json resp of
                                 None \<Rightarrow> (Inl LibraryError, w3)
                               | Some data \<Rightarrow>
                                   (case py_get data ''summary'' (JStr []) of
                                      Inl e \<Rightarrow> (Inl e, w3)
                                    | Inr summary \<Rightarrow>
                                        if \<not> truthy summary
                                        then (Inl (SystemExit 1),
                                              emit (Err_no_summary # (if dbg then [Say_debug] else [])) w3)
                                        else (Inr summary, w3))))))"

section \<open>Helpers and main\<close>

text \<open>
  \<^verbatim>\<open>_is_local_file\<close>: true for a local file, false for a URL, or the exception that
  \<^verbatim>\<open>expanduser()\<close> or \<^verbatim>\<open>exists()\<close> raises, which nothing catches.
\<close>

definition is_local_file :: "env \<Rightarrow> string \<Rightarrow> world \<Rightarrow> (py_error + bool) \<times> world" where
  "is_local_file env input_str w =
     (if startswith input_str ''http://'' \<or> startswith input_str ''https://''
      then (Inr False, w)
      else (case expanduser env input_str of
              Inl e \<Rightarrow> (Inl e, w)
            | Inr p \<Rightarrow>
                (let w1 = emit [Probe_path p] w
                 in case path_exists env p of
                      Inl e \<Rightarrow> (Inl e, w1)
                    | Inr found \<Rightarrow> (Inr found, w1))))"

text \<open>
  The parsed command line. An input that is absent or empty is \<open>[]\<close>: \<^verbatim>\<open>not args.input\<close>
  holds for both, and \<^verbatim>\<open>parser.error\<close> exits with status 2.
\<close>

record args =
  arg_input :: string
  arg_output :: "string option"
  arg_debug :: bool
  arg_use_proxy :: "bool option"

text \<open>
  Lines 399 to 406 of \<^verbatim>\<open>main\<close>: the content, the page title and the source URL.
\<close>

definition acquire ::
  "env \<Rightarrow> string \<Rightarrow> world \<Rightarrow> (py_error + pystr \<times> pystr option \<times> string) \<times> world" where
  "acquire env inp w =
     (case is_local_file env inp w of
        (Inl e, w1) \<Rightarrow> (Inl e, w1)
      | (Inr True, w1) \<Rightarrow>
          (case extract_text_from_pdf env inp w1 of
             (Inl e, w2) \<Rightarrow> (Inl e, w2)
           | (Inr content, w2) \<Rightarrow> (Inr (content, None, ''file://'' @ resolve env inp), w2))
      | (Inr False, w1) \<Rightarrow>
          (case extract_text_from_url env inp w1 of
             (Inl e, w2) \<Rightarrow> (Inl e, w2)
           | (Inr (content, page_title), w2) \<Rightarrow> (Inr (content, page_title, inp), w2)))"

text \<open>
  \<^verbatim>\<open>main\<close>. Lines 412 to 426, which render the Markdown and save it, are one event;
  \<^verbatim>\<open>to_markdown\<close> calls \<^verbatim>\<open>summary.strip()\<close>, which only a string has.
\<close>

definition main :: "env \<Rightarrow> args \<Rightarrow> world \<Rightarrow> (py_error + unit) \<times> world" where
  "main env0 a w =
     (let env = env0\<lparr>PROXY_FORCE := arg_use_proxy a\<rparr>
      in if arg_input a = [] then (Inl (SystemExit 2), w)
         else (case check_rate_limit (time_at_check env) w of
                 (Inl e, w1) \<Rightarrow> (Inl e, w1)
               | (Inr u, w1) \<Rightarrow>
                   (case acquire env (arg_input a) w1 of
                      (Inl e, w2) \<Rightarrow> (Inl e, w2)
                    | (Inr (content, page_title, url), w2) \<Rightarrow>
                        (case summarize_content env content (arg_debug a) w2 of
                           (Inl e, w3) \<Rightarrow> (Inl e, w3)
                         | (Inr summary, w3) \<Rightarrow>
                             (case record_request (time_at_record env) w3 of
                                (Inl e, w4) \<Rightarrow> (Inl e, w4)
                              | (Inr u', w4) \<Rightarrow>
                                  (case summary of
                                     JStr s \<Rightarrow> (Inr (), emit [Write_output (arg_output a)] w4)
                                   | _ \<Rightarrow> (Inl AttributeError, w4)))))))"

section \<open>Notions of the specification\<close>



text \<open>
  The responses of the summarization service that the specification calls failures:
  HTTP 429, any other status that is not a success, and a success whose JSON object has
  an empty summary or none.
\<close>

definition api_failure :: "post_response \<Rightarrow> bool" where
  "api_failure resp =
     (post_status resp = 429 \<or> \<not> ok (post_status resp) \<or>
      (case post_json resp of
         Some (JObj kvs) \<Rightarrow>
           (case map_of kvs ''summary'' of None \<Rightarrow> True | Some v \<Rightarrow> \<not> truthy v)
       | _ \<Rightarrow> False))"

section \<open>A sample run\<close>

text \<open>
  A concrete environment for the examples: no proxy configuration, two local files (one
  of 29 MiB, one above the limit), no user \<^verbatim>\<open>nosuchuser\<close>, a directory \<^verbatim>\<open>locked\<close> that the
  user may not search, a remote PDF and a page with little text, and a service that
  answers with a summary; and the same with a service that answers 429.
\<close>

definition sample_env :: env where
  "sample_env =
     \<lparr>PROXY_FORCE = None, proxy_file = Missing, random_draw = 0,
      time_at_check = 7200, time_at_record = 7260,
      expanduser = (\<lambda>p. if startswith p ''~nosuchuser'' then Inl RuntimeError else Inr p),
      resolve = (\<lambda>p. p),
      path_exists =
        (\<lambda>p. if startswith p ''locked/'' then Inl OSError
             else Inr (p = ''paper.pdf'' \<or> p = ''huge.pdf'')),
      st_size = (\<lambda>p. if p = ''huge.pdf'' then 60000000 else 30408704),
      pdfminer = (\<lambda>p. Inr (map of_char '' two words '')),
      requests_get =
        (\<lambda>url proxies. Inr \<lparr>get_status = 200, get_pdf_text = Inr (map of_char ''abc'')\<rparr>),
      browser = (\<lambda>url. Inr (map of_char ''tiny page'', None)),
      requests_post =
        (\<lambda>content proxies.
           Inr \<lparr>post_status = 200, post_json = Some (JObj [(''summary'', JStr ''gist'')])\<rparr>)\<rparr>"

definition rate_limited_env :: env where
  "rate_limited_env =
     sample_env\<lparr>requests_post :=
       (\<lambda>content proxies. Inr \<lparr>post_status = 429, post_json = None\<rparr>)\<rparr>"

definition sample_args :: args where
  "sample_args =
     \<lparr>arg_input = ''paper.pdf'', arg_output = None, arg_debug = False, arg_use_proxy = None\<rparr>"

definition sample_world :: world where
  "sample_world = \<lparr>rate_file = Parsed (JArr [JNum 7000]), events = []\<rparr>"

section \<open>Properties of the rate limiter\<close>

lemma prune_numbers:
  "prune now (map JNum hs) = Inr (map JNum (filter (\<lambda>ts. now - ts < 3600) hs))"
  by (induction hs) (simp_all add: window_def)

lemma load_pruned_numbers:
  "load_pruned now (Parsed (JArr (map JNum hs))) =
     Inr (map JNum (filter (\<lambda>ts. now - ts < 3600) hs))"
  by (simp add: load_pruned_def prune_numbers)

lemma num_JNum: "map num (map JNum hs) = hs"
  by (induction hs) simp_all

lemma py_max_Max: "xs \<noteq> [] \<Longrightarrow> py_max xs = Inr (Max (set xs))"
  by (cases xs) (simp_all add: Max.set_eq_fold [symmetric])

lemma py_min_Min: "xs \<noteq> [] \<Longrightarrow> py_min xs = Inr (Min (set xs))"
  by (cases xs) (simp_all add: Min.set_eq_fold [symmetric])

lemma check_below_quota:
  assumes "load_pruned now (rate_file w) = Inr kept" and "length kept < 10"
  shows "fst (check_rate_limit now w) = Inr ()"
  using assms
  by (cases "map num kept")
     (auto simp: check_rate_limit_def MAX_REQUESTS_PER_HOUR_def Let_def split: sum.splits)

lemma check_at_quota:
  assumes "load_pruned now (rate_file w) = Inr (map JNum kept)" and "10 \<le> length kept"
  shows "check_rate_limit now w =
     (Inl (SystemExit 1),
      emit ((if now - Max (set kept) < 5
             then [Say_waiting (5 - (now - Max (set kept))), Sleep (5 - (now - Max (set kept)))]
             else [])
            @ [Err_rate_limit_reached (3600 - (now - Min (set kept)))]) w)"
proof -
  from assms(2) have ne: "kept \<noteq> []" by auto
  show ?thesis
    using assms ne
    by (simp add: check_rate_limit_def num_JNum py_max_Max py_min_Min Let_def emit_def
        MIN_INTERVAL_SECONDS_def MAX_REQUESTS_PER_HOUR_def window_def)
qed

lemma check_rate_limit_file:
  "rate_file (snd (check_rate_limit now w)) = rate_file w"
  by (auto simp: check_rate_limit_def emit_def Let_def split: sum.splits)

text \<open>
  C1, as stated, fails: with ten timestamps one second old the call sleeps four seconds
  and only then exits with status 1, so the spacing wait is performed although the
  quota is reached.
\<close>

theorem check_rate_limit_waits_before_quota_exit:
  "check_rate_limit 100 \<lparr>rate_file = Parsed (JArr (replicate 10 (JNum 99))), events = []\<rparr> =
     (Inl (SystemExit 1),
      \<lparr>rate_file = Parsed (JArr (replicate 10 (JNum 99))),
       events = [Say_waiting 4, Sleep 4, Err_rate_limit_reached 3599]\<rparr>)"
  by (simp add: check_rate_limit_def load_pruned_def window_def emit_def numeral_eq_Suc
      MIN_INTERVAL_SECONDS_def MAX_REQUESTS_PER_HOUR_def)

text \<open>
  C1, as amended: in \<^verbatim>\<open>check_rate_limit\<close> the spacing check is evaluated first and the
  quota check second, whatever the spacing check did. For every history of numbers of
  which at least 10 are less than 3600 seconds old, the call exits with status 1 and
  reports the time to retry; before that it sleeps for the rest of the 5 seconds exactly
  when the newest of those timestamps is less than 5 seconds old. The history file is
  left as it was.
\<close>

theorem check_rate_limit_quota_is_fatal_after_spacing:
  "10 \<le> length (filter (\<lambda>ts. now - ts < 3600) hs) \<Longrightarrow>
   check_rate_limit now (w\<lparr>rate_file := Parsed (JArr (map JNum hs))\<rparr>) =
     (let kept = filter (\<lambda>ts. now - ts < 3600) hs;
          newest = Max (set kept);
          oldest = Min (set kept)
      in (Inl (SystemExit 1),
          emit ((if now - newest < 5
                 then [Say_waiting (5 - (now - newest)), Sleep (5 - (now - newest))]
                 else [])
                @ [Err_rate_limit_reached (3600 - (now - oldest))])
            (w\<lparr>rate_file := Parsed (JArr (map JNum hs))\<rparr>)))"
  unfolding Let_def
  by (rule check_at_quota) (simp_all add: load_pruned_numbers)

theorem check_rate_limit_quota_is_fatal_after_spacing_witness:
  "10 \<le> length (filter (\<lambda>ts. 7200 - ts < 3600) (replicate 10 (7000::real))) \<and>
   check_rate_limit 7200
       \<lparr>rate_file = Parsed (JArr (map JNum (replicate 10 7000))), events = []\<rparr> =
     (Inl (SystemExit 1),
      \<lparr>rate_file = Parsed (JArr (map JNum (replicate 10 7000))),
       events = [Err_rate_limit_reached 3400]\<rparr>)"
  using check_rate_limit_quota_is_fatal_after_spacing
          [of 7200 "replicate 10 7000" "\<lparr>rate_file = Missing, events = []\<rparr>"]
  by (simp add: emit_def)

text \<open>
  C2, as stated, fails: an entry aged exactly 3600 seconds is not strictly older than
  3600 seconds, and both \<^verbatim>\<open>check_rate_limit\<close> and \<^verbatim>\<open>record_request\<close> remove it.
\<close>

theorem prune_removes_entry_aged_3600:
  "\<not> (3600 - 0 > (3600::real)) \<and>
   load_pruned 3600 (Parsed (JArr [JNum 0])) = Inr [] \<and>
   rate_file (snd (record_request 3600 \<lparr>rate_file = Parsed (JArr [JNum 0]), events = []\<rparr>)) =
     Parsed (JArr [JNum 3600])"
  by (simp add: load_pruned_def record_request_def window_def emit_def Let_def)

text \<open>
  C2, as amended: for every list of recorded timestamps and every value of now, the
  pruning step that \<^verbatim>\<open>check_rate_limit\<close> and \<^verbatim>\<open>record_request\<close> share keeps, in their order,
  exactly the entries with \<open>now - ts < 3600\<close> and removes exactly those aged 3600 seconds
  or more; an entry aged exactly 3600 seconds is removed. \<^verbatim>\<open>record_request\<close> writes the
  entries kept, followed by now.
\<close>

theorem prune_keeps_exactly_the_entries_younger_than_window:
  "load_pruned now (Parsed (JArr (map JNum hs))) =
     Inr (map JNum (filter (\<lambda>ts. \<not> now - ts \<ge> 3600) hs)) \<and>
   rate_file (snd (record_request now (w\<lparr>rate_file := Parsed (JArr (map JNum hs))\<rparr>))) =
     Parsed (JArr (map JNum (filter (\<lambda>ts. \<not> now - ts \<ge> 3600) hs) @ [JNum now]))"
  by (simp add: load_pruned_numbers record_request_def emit_def not_le Let_def)

theorem prune_keeps_exactly_the_entries_younger_than_window_witness:
  "load_pruned 4000 (Parsed (JArr [JNum 100, JNum 400, JNum 401, JNum 3999])) =
     Inr [JNum 401, JNum 3999] \<and>
   rate_file (snd (record_request 4000
       \<lparr>rate_file = Parsed (JArr [JNum 100, JNum 400, JNum 401, JNum 3999]), events = []\<rparr>)) =
     Parsed (JArr [JNum 401, JNum 3999, JNum 4000])"
  using prune_keeps_exactly_the_entries_younger_than_window
          [of 4000 "[100, 400, 401, 3999]" "\<lparr>rate_file = Missing, events = []\<rparr>"]
  by simp

lemma prune_error: "prune now js = Inl e \<Longrightarrow> e = TypeError"
  by (induction js arbitrary: e) (auto split: if_splits sum.splits)

lemma load_pruned_error:
  "load_pruned now f = Inl e \<Longrightarrow> e = TypeError \<or> e = UnicodeDecodeError"
  by (cases f; cases "case f of Parsed j \<Rightarrow> j | _ \<Rightarrow> JArr []")
     (auto simp: load_pruned_def dest: prune_error split: sum.splits)

lemma check_exit_needs_quota:
  assumes "fst (check_rate_limit now w) = Inl (SystemExit n)"
  shows "\<exists>kept. load_pruned now (rate_file w) = Inr kept \<and> 10 \<le> length kept"
proof (cases "load_pruned now (rate_file w)")
  case (Inl e)
  with assms have "e = SystemExit n" by (simp add: check_rate_limit_def)
  with load_pruned_error [OF Inl] show ?thesis by simp
next
  case (Inr kept)
  show ?thesis
  proof (cases "length kept < 10")
    case True
    with Inr have "fst (check_rate_limit now w) = Inr ()" by (rule check_below_quota)
    with assms show ?thesis by simp
  next
    case False
    with Inr show ?thesis by simp
  qed
qed

text \<open>
  C7: for every history in which fewer than 10 timestamps are less than 3600 seconds old
  at check time, \<^verbatim>\<open>check_rate_limit\<close> returns normally: it does not exit, however close
  together the timestamps are. And whatever the history file holds, the call exits only
  when at least 10 entries are left after pruning.
\<close>

theorem check_rate_limit_returns_below_quota:
  "(length (filter (\<lambda>ts. now - ts < 3600) hs) < 10 \<longrightarrow>
      fst (check_rate_limit now (w\<lparr>rate_file := Parsed (JArr (map JNum hs))\<rparr>)) = Inr ()) \<and>
   (fst (check_rate_limit now w) = Inl (SystemExit n) \<longrightarrow>
      (\<exists>kept. load_pruned now (rate_file w) = Inr kept \<and> 10 \<le> length kept))"
proof (intro conjI impI)
  assume "length (filter (\<lambda>ts. now - ts < 3600) hs) < 10"
  then show "fst (check_rate_limit now (w\<lparr>rate_file := Parsed (JArr (map JNum hs))\<rparr>)) = Inr ()"
    by (intro check_below_quota [where kept = "map JNum (filter (\<lambda>ts. now - ts < 3600) hs)"])
       (simp_all add: load_pruned_numbers)
next
  assume "fst (check_rate_limit now w) = Inl (SystemExit n)"
  then show "\<exists>kept. load_pruned now (rate_file w) = Inr kept \<and> 10 \<le> length kept"
    by (rule check_exit_needs_quota)
qed

theorem check_rate_limit_returns_below_quota_witness:
  "length (filter (\<lambda>ts. 100 - ts < 3600) [99, 99, 99.5 :: real]) < 10 \<and>
   fst (check_rate_limit 100
          \<lparr>rate_file = Parsed (JArr (map JNum [99, 99, 99.5])), events = []\<rparr>) = Inr ()"
  using check_rate_limit_returns_below_quota
          [of 100 "[99, 99, 99.5]" "\<lparr>rate_file = Missing, events = []\<rparr>" 1]
  by simp

section \<open>Frame lemmas: who writes the history file\<close>

lemma check_fileD: "check_rate_limit now w = (r, w1) \<Longrightarrow> rate_file w1 = rate_file w"
  using check_rate_limit_file [of now w] by simp

lemma check_rate_limit_events:
  "Write_rate_limit_file ts \<in> set (events (snd (check_rate_limit now w))) \<Longrightarrow>
   Write_rate_limit_file ts \<in> set (events w)"
  by (auto simp: check_rate_limit_def emit_def Let_def split: sum.splits if_splits)

lemma is_local_file_file: "rate_file (snd (is_local_file env s w)) = rate_file w"
  by (simp add: is_local_file_def emit_def Let_def split: sum.splits)

lemma download_pdf_text_file: "rate_file (snd (download_pdf_text env u w)) = rate_file w"
  by (simp add: download_pdf_text_def emit_def Let_def split: sum.splits)

lemma browse_page_file: "rate_file (snd (browse_page env u w)) = rate_file w"
  by (simp add: browse_page_def emit_def Let_def split: sum.splits prod.splits)

lemma extract_text_from_url_file:
  "rate_file (snd (extract_text_from_url env u w)) = rate_file w"
  by (simp add: extract_text_from_url_def download_pdf_text_file browse_page_file
      split: option.splits)

lemma extract_text_from_pdf_file:
  "rate_file (snd (extract_text_from_pdf env p w)) = rate_file w"
  by (simp add: extract_text_from_pdf_def emit_def Let_def split: sum.splits)

lemma acquire_file: "rate_file (snd (acquire env s w)) = rate_file w"
proof (cases "is_local_file env s w")
  case (Pair r w1)
  then have w1: "rate_file w1 = rate_file w"
    using is_local_file_file [of env s w] by simp
  show ?thesis
  proof (cases r)
    case (Inl e)
    with Pair w1 show ?thesis by (simp add: acquire_def)
  next
    case (Inr b)
    show ?thesis
    proof (cases b)
      case True
      with Pair Inr w1 extract_text_from_pdf_file [of env s w1] show ?thesis
        by (auto simp: acquire_def split: prod.splits sum.splits)
    next
      case False
      with Pair Inr w1 extract_text_from_url_file [of env s w1] show ?thesis
        by (auto simp: acquire_def split: prod.splits sum.splits)
    qed
  qed
qed

lemma acquire_fileD: "acquire env s w = (r, w1) \<Longrightarrow> rate_file w1 = rate_file w"
  using acquire_file [of env s w] by simp

lemma summarize_content_file:
  "rate_file (snd (summarize_content env c d w)) = rate_file w"
  by (simp add: summarize_content_def emit_def Let_def split: sum.splits option.splits)

lemma summarize_fileD:
  "summarize_content env c d w = (r, w1) \<Longrightarrow> rate_file w1 = rate_file w"
  using summarize_content_file [of env c d w] by simp

lemma summarize_failure:
  assumes "get_proxy (PROXY_FORCE env) (proxy_file env) (random_draw env) = Inr proxies"
    and "requests_post env c proxies = Inr resp" and "api_failure resp"
  shows "fst (summarize_content env c d w) = Inl (SystemExit 1)"
  using assms
  by (auto simp: summarize_content_def api_failure_def Let_def split: option.splits json.splits)

lemma summarize_all_fail:
  assumes "\<forall>c p resp. requests_post env c p = Inr resp \<longrightarrow> api_failure resp"
  shows "\<exists>e. fst (summarize_content env c d w) = Inl e"
proof (cases "get_proxy (PROXY_FORCE env) (proxy_file env) (random_draw env)")
  case (Inl e)
  then show ?thesis by (simp add: summarize_content_def Let_def)
next
  case (Inr proxies)
  show ?thesis
  proof (cases "requests_post env c proxies")
    case (Inl e)
    with Inr show ?thesis by (simp add: summarize_content_def Let_def)
  next
    case (Inr resp)
    with assms have "api_failure resp" by blast
    with \<open>get_proxy _ _ _ = Inr proxies\<close> Inr show ?thesis
      using summarize_failure by blast
  qed
qed

lemma main_aborts:
  assumes "\<And>c w2. \<exists>e. fst (summarize_content (env\<lparr>PROXY_FORCE := arg_use_proxy a\<rparr>) c
                              (arg_debug a) w2) = Inl e"
  shows "(\<exists>e. fst (main env a w) = Inl e) \<and> rate_file (snd (main env a w)) = rate_file w"
proof (cases "arg_input a = []")
  case True
  then show ?thesis by (simp add: main_def)
next
  case False
  let ?env = "env\<lparr>PROXY_FORCE := arg_use_proxy a\<rparr>"
  obtain r1 w1 where c: "check_rate_limit (time_at_check ?env) w = (r1, w1)"
    by (cases "check_rate_limit (time_at_check ?env) w")
  then have f1: "rate_file w1 = rate_file w" by (rule check_fileD)
  show ?thesis
  proof (cases r1)
    case (Inl e)
    with False c f1 show ?thesis by (simp add: main_def)
  next
    case (Inr u)
    obtain r2 w2 where q: "acquire ?env (arg_input a) w1 = (r2, w2)"
      by (cases "acquire ?env (arg_input a) w1")
    then have f2: "rate_file w2 = rate_file w1" by (rule acquire_fileD)
    show ?thesis
    proof (cases r2)
      case (Inl e)
      with False c Inr q f1 f2 show ?thesis by (simp add: main_def)
    next
      case r2: (Inr got)
      obtain content page_title url where got: "got = (content, page_title, url)"
        by (cases got)
      obtain r3 w3 where s: "summarize_content ?env content (arg_debug a) w2 = (r3, w3)"
        by (cases "summarize_content ?env content (arg_debug a) w2")
      then have f3: "rate_file w3 = rate_file w2" by (rule summarize_fileD)
      from assms [of content w2] s obtain e where "r3 = Inl e" by auto
      with False c Inr q r2 got s f1 f2 f3 show ?thesis by (simp add: main_def)
    qed
  qed
qed

lemma main_record_only_after_summary:
  assumes "rate_file (snd (main env a w)) \<noteq> rate_file w"
  shows "\<exists>c w2 summary w3.
           summarize_content (env\<lparr>PROXY_FORCE := arg_use_proxy a\<rparr>) c (arg_debug a) w2 =
             (Inr summary, w3) \<and>
           rate_file w3 = rate_file w \<and>
           rate_file (snd (main env a w)) =
             rate_file (snd (record_request (time_at_record env) w3))"
proof (rule ccontr)
  assume n: "\<not> ?thesis"
  let ?env = "env\<lparr>PROXY_FORCE := arg_use_proxy a\<rparr>"
  show False
  proof (cases "arg_input a = []")
    case True
    with assms show False by (simp add: main_def)
  next
    case False
    obtain r1 w1 where c: "check_rate_limit (time_at_check ?env) w = (r1, w1)"
      by (cases "check_rate_limit (time_at_check ?env) w")
    then have f1: "rate_file w1 = rate_file w" by (rule check_fileD)
    show False
    proof (cases r1)
      case (Inl e)
      with False c f1 assms show False by (simp add: main_def)
    next
      case (Inr u)
      obtain r2 w2 where q: "acquire ?env (arg_input a) w1 = (r2, w2)"
        by (cases "acquire ?env (arg_input a) w1")
      then have f2: "rate_file w2 = rate_file w1" by (rule acquire_fileD)
      show False
      proof (cases r2)
        case (Inl e)
        with False c Inr q f1 f2 assms show False by (simp add: main_def)
      next
        case r2: (Inr got)
        obtain content page_title url where got: "got = (content, page_title, url)"
          by (cases got)
        obtain r3 w3 where s: "summarize_content ?env content (arg_debug a) w2 = (r3, w3)"
          by (cases "summarize_content ?env content (arg_debug a) w2")
        then have f3: "rate_file w3 = rate_file w2" by (rule summarize_fileD)
        show False
        proof (cases r3)
          case (Inl e)
          with False c Inr q r2 got s f1 f2 f3 assms show False by (simp add: main_def)
        next
          case r3: (Inr summary)
          have "rate_file (snd (main env a w)) =
                rate_file (snd (record_request (time_at_record env) w3))"
            using False c Inr q r2 got s r3
            by (cases "record_request (time_at_record env) w3")
               (auto simp: main_def emit_def split: sum.splits json.splits)
          with n s r3 f1 f2 f3 show False by auto
        qed
      qed
    qed
  qed
qed

lemma main_api_failure:
  assumes "arg_input a \<noteq> []"
    and "check_rate_limit (time_at_check env) w = (Inr (), w1)"
    and "acquire (env\<lparr>PROXY_FORCE := arg_use_proxy a\<rparr>) (arg_input a) w1 =
           (Inr (content, title, url), w2)"
    and "get_proxy (arg_use_proxy a) (proxy_file env) (random_draw env) = Inr proxies"
    and "requests_post env content proxies = Inr resp"
    and "api_failure resp"
  shows "fst (main env a w) = Inl (SystemExit 1) \<and> rate_file (snd (main env a w)) = rate_file w"
proof -
  let ?env = "env\<lparr>PROXY_FORCE := arg_use_proxy a\<rparr>"
  obtain r3 w3 where s: "summarize_content ?env content (arg_debug a) w2 = (r3, w3)"
    by (cases "summarize_content ?env content (arg_debug a) w2")
  have "fst (summarize_content ?env content (arg_debug a) w2) = Inl (SystemExit 1)"
    by (rule summarize_failure [where proxies = proxies and resp = resp]) (simp_all add: assms)
  with s have r3: "r3 = Inl (SystemExit 1)" by simp
  have "rate_file w3 = rate_file w"
    using summarize_fileD [OF s] acquire_fileD [OF assms(3)] check_fileD [OF assms(2)] by simp
  with assms(1,2,3) s r3 show ?thesis by (simp add: main_def)
qed

text \<open>The sample run, evaluated: with a summary, and with the service answering 429.\<close>

lemma sample_check:
  "check_rate_limit 7200 sample_world = (Inr (), sample_world)"
  by (simp add: sample_world_def check_rate_limit_def load_pruned_def window_def
      MIN_INTERVAL_SECONDS_def MAX_REQUESTS_PER_HOUR_def)

lemma sample_acquire:
  "acquire sample_env ''paper.pdf'' sample_world =
     (Inr (map of_char ''two words'', None, ''file://paper.pdf''),
      emit [Probe_path ''paper.pdf'', Probe_path ''paper.pdf'', Stat_path ''paper.pdf'',
            Say_extracting_pdf ''paper.pdf'', Pdfminer_read ''paper.pdf'', Warn_little_text_pdf]
        sample_world)"
  by (simp add: sample_env_def sample_world_def acquire_def is_local_file_def startswith_def
      extract_text_from_pdf_def strip_def py_isspace_def emit_def Let_def)

lemma sample_get_proxy: "get_proxy None Missing 0 = Inr JNull"
  by (simp add: get_proxy_def get_proxy_url_def no_proxy_config_def)

section \<open>Properties of the proxy pool\<close>






section \<open>Properties of the fetcher\<close>

lemma query_tail_plain:
  "c \<noteq> CHR ''?'' \<Longrightarrow> c \<noteq> newline \<Longrightarrow> \<not> query_tail (c # cs)"
  by (simp add: query_tail_def at_end_def)

lemma query_tail_query:
  assumes "newline \<notin> set q"
  shows "query_tail (CHR ''?'' # q)"
proof -
  from assms have "dropWhile (\<lambda>d. d \<noteq> newline) q = []" by auto
  then show ?thesis by (simp add: query_tail_def at_end_def)
qed

lemma lazy_group_plain:
  "CHR ''?'' \<notin> set cs \<Longrightarrow> newline \<notin> set cs \<Longrightarrow> lazy_group taken cs = Some (taken @ cs)"
  by (induction cs arbitrary: taken) (auto simp: query_tail_plain query_tail_def at_end_def)

lemma lazy_group_query:
  "CHR ''?'' \<notin> set cs \<Longrightarrow> newline \<notin> set cs \<Longrightarrow> newline \<notin> set q \<Longrightarrow>
   lazy_group taken (cs @ CHR ''?'' # q) = Some (taken @ cs)"
  by (induction cs arbitrary: taken) (auto simp: query_tail_plain query_tail_query)

lemma dot_plus_lazy_plain:
  "ident \<noteq> [] \<Longrightarrow> CHR ''?'' \<notin> set ident \<Longrightarrow> newline \<notin> set ident \<Longrightarrow>
   dot_plus_lazy ident = Some ident"
  by (cases ident) (auto simp: dot_plus_lazy_def lazy_group_plain)

lemma dot_plus_lazy_query:
  "ident \<noteq> [] \<Longrightarrow> CHR ''?'' \<notin> set ident \<Longrightarrow> newline \<notin> set ident \<Longrightarrow>
   newline \<notin> set q \<Longrightarrow> dot_plus_lazy (ident @ CHR ''?'' # q) = Some ident"
  by (cases ident) (auto simp: dot_plus_lazy_def lazy_group_query)

lemma arxiv_match_https:
  "arxiv_match ''abs'' (''https://arxiv.org/abs/'' @ rest) = dot_plus_lazy rest"
  by (simp add: arxiv_match_def match_from_def startswith_def Let_def split: option.splits)

lemma arxiv_match_http:
  "arxiv_match ''abs'' (''http://arxiv.org/abs/'' @ rest) = dot_plus_lazy rest"
  by (simp add: arxiv_match_def match_from_def startswith_def Let_def split: option.splits)

lemma download_no_browser:
  "Browser_visit v \<in> set (events (snd (download_pdf_text env u w))) \<Longrightarrow>
   Browser_visit v \<in> set (events w)"
  by (auto simp: download_pdf_text_def emit_def Let_def split: sum.splits if_splits)

lemma rewrite_example:
  "rewrite_to_pdf_url ''https://arxiv.org/abs/1234.5678'' = Some ''https://arxiv.org/pdf/1234.5678''"
  by (simp add: rewrite_to_pdf_url_def arxiv_match_def match_from_def startswith_def
      dot_plus_lazy_def query_tail_def at_end_def newline_def)

lemma rewrite_other_example:
  "rewrite_to_pdf_url ''https://example.com/a'' = None"
  by (simp add: rewrite_to_pdf_url_def arxiv_match_def match_from_def startswith_def)

text \<open>
  C3: a URL that matches the arXiv abstract pattern with group \<open>g\<close> is rewritten to
  \<^verbatim>\<open>https://arxiv.org/pdf/\<close> followed by \<open>g\<close> before a strategy is chosen, and is handed to
  the PDF downloader, which opens no browser session; the pattern matches every
  \<^verbatim>\<open>http\<close> or \<^verbatim>\<open>https\<close> abstract URL of an identifier that is not empty and has no question
  mark and no newline, with or without a query string, and its group is the identifier.
  A URL that matches no pattern goes unchanged to the browser.
\<close>

theorem arxiv_abstract_url_goes_to_pdf_download:
  "(arxiv_match ''abs'' url = Some g \<longrightarrow>
      rewrite_to_pdf_url url = Some (''https://arxiv.org/pdf/'' @ g) \<and>
      extract_text_from_url env url w =
        download_pdf_text env (''https://arxiv.org/pdf/'' @ g) w \<and>
      (\<forall>v. Browser_visit v \<in> set (events (snd (extract_text_from_url env url w))) \<longrightarrow>
           Browser_visit v \<in> set (events w))) \<and>
   (ident \<noteq> [] \<and> CHR ''?'' \<notin> set ident \<and> newline \<notin> set ident \<and> newline \<notin> set q \<longrightarrow>
      arxiv_match ''abs'' (''https://arxiv.org/abs/'' @ ident) = Some ident \<and>
      arxiv_match ''abs'' (''http://arxiv.org/abs/'' @ ident) = Some ident \<and>
      arxiv_match ''abs'' (''https://arxiv.org/abs/'' @ ident @ CHR ''?'' # q) = Some ident) \<and>
   (rewrite_to_pdf_url url = None \<longrightarrow>
      extract_text_from_url env url w = browse_page env url w \<and>
      (\<exists>es. events (snd (extract_text_from_url env url w)) =
              events w @ [Say_extracting_url url, Browser_visit url] @ es))"
proof (intro conjI impI allI)
  assume m: "arxiv_match ''abs'' url = Some g"
  then show r: "rewrite_to_pdf_url url = Some (''https://arxiv.org/pdf/'' @ g)"
    by (simp add: rewrite_to_pdf_url_def)
  then show e: "extract_text_from_url env url w =
      download_pdf_text env (''https://arxiv.org/pdf/'' @ g) w"
    by (simp add: extract_text_from_url_def)
  fix v assume "Browser_visit v \<in> set (events (snd (extract_text_from_url env url w)))"
  with e show "Browser_visit v \<in> set (events w)"
    using download_no_browser by simp
next
  assume h: "ident \<noteq> [] \<and> CHR ''?'' \<notin> set ident \<and> newline \<notin> set ident \<and> newline \<notin> set q"
  then show "arxiv_match ''abs'' (''https://arxiv.org/abs/'' @ ident) = Some ident"
    by (simp add: arxiv_match_https dot_plus_lazy_plain del: append.simps)
  from h show "arxiv_match ''abs'' (''http://arxiv.org/abs/'' @ ident) = Some ident"
    by (simp add: arxiv_match_http dot_plus_lazy_plain del: append.simps)
  from h show "arxiv_match ''abs'' (''https://arxiv.org/abs/'' @ ident @ CHR ''?'' # q) = Some ident"
    by (simp add: arxiv_match_https dot_plus_lazy_query del: append.simps)
next
  assume n: "rewrite_to_pdf_url url = None"
  then show "extract_text_from_url env url w = browse_page env url w"
    by (simp add: extract_text_from_url_def)
  then show "\<exists>es. events (snd (extract_text_from_url env url w)) =
              events w @ [Say_extracting_url url, Browser_visit url] @ es"
    by (auto simp: browse_page_def emit_def Let_def split: sum.splits prod.splits)
qed

theorem arxiv_abstract_url_goes_to_pdf_download_witness:
  "arxiv_match ''abs'' ''https://arxiv.org/abs/1234.5678'' = Some ''1234.5678'' \<and>
   arxiv_match ''abs'' ''https://arxiv.org/abs/1234.5678?context=cs'' = Some ''1234.5678'' \<and>
   rewrite_to_pdf_url ''https://arxiv.org/abs/1234.5678'' = Some ''https://arxiv.org/pdf/1234.5678'' \<and>
   extract_text_from_url sample_env ''https://arxiv.org/abs/1234.5678'' sample_world =
     download_pdf_text sample_env ''https://arxiv.org/pdf/1234.5678'' sample_world \<and>
   rewrite_to_pdf_url ''https://example.com/a'' = None \<and>
   extract_text_from_url sample_env ''https://example.com/a'' sample_world =
     browse_page sample_env ''https://example.com/a'' sample_world"
proof -
  have h: "''1234.5678'' \<noteq> [] \<and> CHR ''?'' \<notin> set ''1234.5678'' \<and> newline \<notin> set ''1234.5678'' \<and>
           newline \<notin> set ''context=cs''"
    by (simp add: newline_def)
  have m: "arxiv_match ''abs'' ''https://arxiv.org/abs/1234.5678'' = Some ''1234.5678'' \<and>
        arxiv_match ''abs'' ''https://arxiv.org/abs/1234.5678?context=cs'' = Some ''1234.5678''"
    using arxiv_abstract_url_goes_to_pdf_download
            [of "''x''" "''y''" sample_env sample_world "''1234.5678''" "''context=cs''"] h
    by simp
  then have a: "arxiv_match ''abs'' ''https://arxiv.org/abs/1234.5678'' = Some ''1234.5678''"
    by simp
  have d: "rewrite_to_pdf_url ''https://arxiv.org/abs/1234.5678'' =
             Some ''https://arxiv.org/pdf/1234.5678'' \<and>
           extract_text_from_url sample_env ''https://arxiv.org/abs/1234.5678'' sample_world =
             download_pdf_text sample_env ''https://arxiv.org/pdf/1234.5678'' sample_world"
    using arxiv_abstract_url_goes_to_pdf_download
            [of "''https://arxiv.org/abs/1234.5678''" "''1234.5678''" sample_env sample_world
                "''1234.5678''" "''context=cs''"] a
    by simp
  have n: "rewrite_to_pdf_url ''https://example.com/a'' = None"
    by (rule rewrite_other_example)
  have b: "extract_text_from_url sample_env ''https://example.com/a'' sample_world =
           browse_page sample_env ''https://example.com/a'' sample_world"
    using arxiv_abstract_url_goes_to_pdf_download
            [of "''https://example.com/a''" "''y''" sample_env sample_world
                "''1234.5678''" "''context=cs''"] n
    by blast
  from m d n b show ?thesis by blast
qed

text \<open>
  C4, as stated, fails: the claim classifies every input string, but for an input without
  a URL scheme \<^verbatim>\<open>_is_local_file\<close> calls \<^verbatim>\<open>expanduser()\<close> and \<^verbatim>\<open>exists()\<close>, and either can raise.
  With no user \<^verbatim>\<open>nosuchuser\<close> the first raises \<^verbatim>\<open>RuntimeError\<close>; under a directory that may
  not be searched the second raises \<^verbatim>\<open>OSError\<close>. The input is then neither a local file nor
  a URL: the run ends with the exception.
\<close>

theorem is_local_file_raises_instead_of_classifying:
  "\<not> startswith ''~nosuchuser/paper.pdf'' ''http://'' \<and>
   \<not> startswith ''~nosuchuser/paper.pdf'' ''https://'' \<and>
   is_local_file sample_env ''~nosuchuser/paper.pdf'' sample_world =
     (Inl RuntimeError, sample_world) \<and>
   \<not> startswith ''locked/paper.pdf'' ''http://'' \<and>
   \<not> startswith ''locked/paper.pdf'' ''https://'' \<and>
   is_local_file sample_env ''locked/paper.pdf'' sample_world =
     (Inl OSError, emit [Probe_path ''locked/paper.pdf''] sample_world) \<and>
   fst (main sample_env (sample_args\<lparr>arg_input := ''~nosuchuser/paper.pdf''\<rparr>) sample_world) =
     Inl RuntimeError"
  by (simp add: is_local_file_def startswith_def sample_env_def main_def sample_args_def
      sample_check acquire_def Let_def)

text \<open>
  C4, as amended: an input that starts with \<^verbatim>\<open>http://\<close> or \<^verbatim>\<open>https://\<close> is classified as a URL
  with no effect at all, so without a probe of the file system, and goes to the URL
  extractor. Any other input is classified only when \<^verbatim>\<open>expanduser()\<close> and \<^verbatim>\<open>exists()\<close>
  return: as a local file exactly when the expanded path exists, as a URL when it does
  not. When one of the two raises, the call ends with that exception and the input is
  not classified. The only path ever probed is the expanded input.
\<close>

theorem is_local_file_classification:
  "(startswith s ''http://'' \<or> startswith s ''https://'' \<longrightarrow>
      is_local_file env s w = (Inr False, w) \<and>
      acquire env s w =
        (case extract_text_from_url env s w of
           (Inl e, w2) \<Rightarrow> (Inl e, w2)
         | (Inr (content, page_title), w2) \<Rightarrow> (Inr (content, page_title, s), w2))) \<and>
   (fst (is_local_file env s w) = Inr True \<longleftrightarrow>
      \<not> (startswith s ''http://'' \<or> startswith s ''https://'') \<and>
      (\<exists>p. expanduser env s = Inr p \<and> path_exists env p = Inr True)) \<and>
   (fst (is_local_file env s w) = Inr False \<longleftrightarrow>
      startswith s ''http://'' \<or> startswith s ''https://'' \<or>
      (\<exists>p. expanduser env s = Inr p \<and> path_exists env p = Inr False)) \<and>
   (fst (is_local_file env s w) = Inl e \<longleftrightarrow>
      \<not> (startswith s ''http://'' \<or> startswith s ''https://'') \<and>
      (expanduser env s = Inl e \<or>
       (\<exists>p. expanduser env s = Inr p \<and> path_exists env p = Inl e))) \<and>
   (Probe_path q \<in> set (events (snd (is_local_file env s w))) \<longrightarrow>
      Probe_path q \<in> set (events w) \<or>
      (\<not> (startswith s ''http://'' \<or> startswith s ''https://'') \<and> expanduser env s = Inr q))"
proof (intro conjI impI)
  assume u: "startswith s ''http://'' \<or> startswith s ''https://''"
  then show l: "is_local_file env s w = (Inr False, w)"
    by (auto simp: is_local_file_def)
  then show "acquire env s w =
        (case extract_text_from_url env s w of
           (Inl e, w2) \<Rightarrow> (Inl e, w2)
         | (Inr (content, page_title), w2) \<Rightarrow> (Inr (content, page_title, s), w2))"
    by (simp add: acquire_def)
next
  show "fst (is_local_file env s w) = Inr True \<longleftrightarrow>
      \<not> (startswith s ''http://'' \<or> startswith s ''https://'') \<and>
      (\<exists>p. expanduser env s = Inr p \<and> path_exists env p = Inr True)"
    by (auto simp: is_local_file_def Let_def split: sum.splits)
next
  show "fst (is_local_file env s w) = Inr False \<longleftrightarrow>
      startswith s ''http://'' \<or> startswith s ''https://'' \<or>
      (\<exists>p. expanduser env s = Inr p \<and> path_exists env p = Inr False)"
    by (auto simp: is_local_file_def Let_def split: sum.splits)
next
  show "fst (is_local_file env s w) = Inl e \<longleftrightarrow>
      \<not> (startswith s ''http://'' \<or> startswith s ''https://'') \<and>
      (expanduser env s = Inl e \<or>
       (\<exists>p. expanduser env s = Inr p \<and> path_exists env p = Inl e))"
    by (auto simp: is_local_file_def Let_def split: sum.splits)
next
  assume "Probe_path q \<in> set (events (snd (is_local_file env s w)))"
  then show "Probe_path q \<in> set (events w) \<or>
      (\<not> (startswith s ''http://'' \<or> startswith s ''https://'') \<and> expanduser env s = Inr q)"
    by (auto simp: is_local_file_def emit_def Let_def split: sum.splits if_splits)
qed

theorem is_local_file_classification_witness:
  "startswith ''https://example.com/paper.pdf'' ''https://'' \<and>
   is_local_file sample_env ''https://example.com/paper.pdf'' sample_world =
     (Inr False, sample_world) \<and>
   fst (is_local_file sample_env ''paper.pdf'' sample_world) = Inr True \<and>
   fst (is_local_file sample_env ''nothing.pdf'' sample_world) = Inr False \<and>
   fst (is_local_file sample_env ''locked/paper.pdf'' sample_world) = Inl OSError"
proof -
  have h: "startswith ''https://example.com/paper.pdf'' ''https://''"
    by (simp add: startswith_def)
  then have 1: "is_local_file sample_env ''https://example.com/paper.pdf'' sample_world =
                  (Inr False, sample_world)"
    using is_local_file_classification
            [of "''https://example.com/paper.pdf''" sample_env sample_world OSError "[]"]
    by simp
  have n: "\<not> (startswith ''paper.pdf'' ''http://'' \<or> startswith ''paper.pdf'' ''https://'')"
          "\<not> (startswith ''nothing.pdf'' ''http://'' \<or> startswith ''nothing.pdf'' ''https://'')"
          "\<not> (startswith ''locked/paper.pdf'' ''http://'' \<or>
              startswith ''locked/paper.pdf'' ''https://'')"
    by (simp_all add: startswith_def)
  have e: "expanduser sample_env ''paper.pdf'' = Inr ''paper.pdf''"
          "expanduser sample_env ''nothing.pdf'' = Inr ''nothing.pdf''"
          "expanduser sample_env ''locked/paper.pdf'' = Inr ''locked/paper.pdf''"
    by (simp_all add: sample_env_def startswith_def)
  have x: "path_exists sample_env ''paper.pdf'' = Inr True"
          "path_exists sample_env ''nothing.pdf'' = Inr False"
          "path_exists sample_env ''locked/paper.pdf'' = Inl OSError"
    by (simp_all add: sample_env_def startswith_def)
  have 2: "fst (is_local_file sample_env ''paper.pdf'' sample_world) = Inr True"
    using is_local_file_classification [of "''paper.pdf''" sample_env sample_world OSError "[]"]
          n(1) e(1) x(1)
    by blast
  have 3: "fst (is_local_file sample_env ''nothing.pdf'' sample_world) = Inr False"
    using is_local_file_classification [of "''nothing.pdf''" sample_env sample_world OSError "[]"]
          n(2) e(2) x(2)
    by blast
  have 4: "fst (is_local_file sample_env ''locked/paper.pdf'' sample_world) = Inl OSError"
    using is_local_file_classification
            [of "''locked/paper.pdf''" sample_env sample_world OSError "[]"]
          n(3) e(3) x(3)
    by blast
  from h 1 2 3 4 show ?thesis by simp
qed

section \<open>Properties of the PDF extractor\<close>

lemma strip_decomp:
  "\<exists>a b. t = a @ strip t @ b \<and> list_all py_isspace a \<and> list_all py_isspace b"
proof -
  let ?d = "dropWhile py_isspace t"
  have 1: "t = takeWhile py_isspace t @ ?d" by simp
  have 2: "rev ?d = takeWhile py_isspace (rev ?d) @ dropWhile py_isspace (rev ?d)" by simp
  have "?d = rev (dropWhile py_isspace (rev ?d)) @ rev (takeWhile py_isspace (rev ?d))"
    by (metis 2 rev_append rev_rev_ident)
  then have "t = takeWhile py_isspace t @ strip t @ rev (takeWhile py_isspace (rev ?d))"
    using 1 by (simp add: strip_def)
  moreover have "list_all py_isspace (takeWhile py_isspace t)"
    by (simp add: list_all_iff) (meson set_takeWhileD)
  moreover have "list_all py_isspace (rev (takeWhile py_isspace (rev ?d)))"
    by (simp add: list_all_iff) (meson set_takeWhileD)
  ultimately show ?thesis by blast
qed

lemma strip_ends:
  assumes ne: "strip t \<noteq> []"
  shows "\<not> py_isspace (hd (strip t)) \<and> \<not> py_isspace (last (strip t))"
proof -
  let ?d = "dropWhile py_isspace t"
  let ?e = "dropWhile py_isspace (rev ?d)"
  from ne have e: "?e \<noteq> []" by (simp add: strip_def)
  then have "\<not> py_isspace (hd ?e)" by (rule hd_dropWhile)
  then have l: "\<not> py_isspace (last (strip t))"
    using e by (simp add: strip_def last_rev)
  have d: "?d \<noteq> []"
  proof
    assume "?d = []"
    then have "?e = []" by (simp only: rev.simps dropWhile.simps)
    with e show False by simp
  qed
  then have hd: "\<not> py_isspace (hd ?d)" by (rule hd_dropWhile)
  have "hd (rev ?e) = hd ?d"
  proof -
    have "rev ?d = takeWhile py_isspace (rev ?d) @ ?e" by simp
    then have "?d = rev ?e @ rev (takeWhile py_isspace (rev ?d))"
      by (metis rev_append rev_rev_ident)
    then have "hd ?d = hd (rev ?e @ rev (takeWhile py_isspace (rev ?d)))" by simp
    also have "\<dots> = hd (rev ?e)" using e by simp
    finally show ?thesis by simp
  qed
  with hd l show ?thesis by (simp add: strip_def)
qed

text \<open>
  C5: \<^verbatim>\<open>_extract_text_from_pdf\<close> exits with the file-not-found message when the resolved
  path does not exist, and with the file-too-large message when the file is larger than
  50 MiB; in both cases pdfminer has not been called, so the checks come before any
  reading of the content. Otherwise, when pdfminer gives a text, the result is that text
  without its leading and trailing whitespace. When the existence check itself raises,
  the call ends there, again before any reading.
\<close>

theorem extract_text_from_pdf_checks_before_reading:
  "(path_exists env (resolve env path) = Inr False \<longrightarrow>
      extract_text_from_pdf env path w =
        (Inl (SystemExit 1),
         emit [Probe_path (resolve env path), Err_file_not_found (resolve env path)] w)) \<and>
   (path_exists env (resolve env path) = Inr True \<and>
    st_size env (resolve env path) > 50 * 1024 * 1024 \<longrightarrow>
      extract_text_from_pdf env path w =
        (Inl (SystemExit 1),
         emit [Probe_path (resolve env path), Stat_path (resolve env path),
               Err_file_too_large] w)) \<and>
   (path_exists env (resolve env path) = Inr True \<and>
    st_size env (resolve env path) \<le> 50 * 1024 * 1024 \<and>
    pdfminer env (resolve env path) = Inr extracted \<longrightarrow>
      fst (extract_text_from_pdf env path w) = Inr (strip extracted) \<and>
      (\<exists>a b. extracted = a @ strip extracted @ b \<and>
             list_all py_isspace a \<and> list_all py_isspace b) \<and>
      (strip extracted \<noteq> [] \<longrightarrow>
         \<not> py_isspace (hd (strip extracted)) \<and> \<not> py_isspace (last (strip extracted)))) \<and>
   (path_exists env (resolve env path) = Inl e \<longrightarrow>
      extract_text_from_pdf env path w = (Inl e, emit [Probe_path (resolve env path)] w))"
  using strip_decomp [of extracted] strip_ends [of extracted]
  by (simp add: extract_text_from_pdf_def Let_def emit_def)

theorem extract_text_from_pdf_checks_before_reading_witness:
  "extract_text_from_pdf sample_env ''nothing.pdf'' sample_world =
     (Inl (SystemExit 1),
      emit [Probe_path ''nothing.pdf'', Err_file_not_found ''nothing.pdf''] sample_world) \<and>
   extract_text_from_pdf sample_env ''huge.pdf'' sample_world =
     (Inl (SystemExit 1),
      emit [Probe_path ''huge.pdf'', Stat_path ''huge.pdf'', Err_file_too_large] sample_world) \<and>
   fst (extract_text_from_pdf sample_env ''paper.pdf'' sample_world) =
     Inr (map of_char ''two words'')"
proof -
  have 1: "path_exists sample_env (resolve sample_env ''nothing.pdf'') = Inr False"
    by (simp add: sample_env_def startswith_def)
  have 2: "path_exists sample_env (resolve sample_env ''huge.pdf'') = Inr True \<and>
           st_size sample_env (resolve sample_env ''huge.pdf'') > 50 * 1024 * 1024"
    by (simp add: sample_env_def startswith_def)
  have 3: "path_exists sample_env (resolve sample_env ''paper.pdf'') = Inr True \<and>
           st_size sample_env (resolve sample_env ''paper.pdf'') \<le> 50 * 1024 * 1024 \<and>
           pdfminer sample_env (resolve sample_env ''paper.pdf'') =
             Inr (map of_char '' two words '')"
    by (simp add: sample_env_def startswith_def)
  have r: "resolve sample_env = (\<lambda>p. p)"
    by (simp add: sample_env_def)
  have s: "strip (map of_char '' two words '') = map of_char ''two words''"
    by (simp add: strip_def py_isspace_def)
  have a: "extract_text_from_pdf sample_env ''nothing.pdf'' sample_world =
     (Inl (SystemExit 1),
      emit [Probe_path ''nothing.pdf'', Err_file_not_found ''nothing.pdf''] sample_world)"
    using extract_text_from_pdf_checks_before_reading
            [of sample_env "''nothing.pdf''" sample_world "[]" OSError] 1
    by (simp add: r)
  have b: "extract_text_from_pdf sample_env ''huge.pdf'' sample_world =
     (Inl (SystemExit 1),
      emit [Probe_path ''huge.pdf'', Stat_path ''huge.pdf'', Err_file_too_large] sample_world)"
    using extract_text_from_pdf_checks_before_reading
            [of sample_env "''huge.pdf''" sample_world "[]" OSError] 2
    by (simp add: r)
  have c: "fst (extract_text_from_pdf sample_env ''paper.pdf'' sample_world) =
     Inr (map of_char ''two words'')"
    using extract_text_from_pdf_checks_before_reading
            [of sample_env "''paper.pdf''" sample_world "map of_char '' two words ''" OSError] 3
    by (simp only: s)
  from a b c show ?thesis by simp
qed

section \<open>Low content\<close>

text \<open>
  What holds of the low-content warning: the browser path and the local PDF path warn
  when the text has fewer than 50 characters and return it all the same.
\<close>

lemma strip_Nil: "strip [] = []"
  by (simp add: strip_def)

lemma low_content_is_warned_and_returned:
  "(browser env url = Inr (t, title) \<longrightarrow>
      browse_page env url w =
        (Inr (t, title),
         emit ([Say_extracting_url url, Browser_visit url] @
               (if length t < 50 then [Warn_little_text_page] else [])) w)) \<and>
   (path_exists env (resolve env path) = Inr True \<and>
    st_size env (resolve env path) \<le> 50 * 1024 * 1024 \<and>
    pdfminer env (resolve env path) = Inr t \<longrightarrow>
      extract_text_from_pdf env path w =
        (Inr (strip t),
         emit ([Probe_path (resolve env path), Stat_path (resolve env path),
                Say_extracting_pdf (resolve env path), Pdfminer_read (resolve env path)] @
               (if length (strip t) < 50 then [Warn_little_text_pdf] else [])) w))"
  by (auto simp: browse_page_def extract_text_from_pdf_def emit_def Let_def strip_Nil)

text \<open>
  C9 fails on the third extractor: for an arXiv abstract URL \<^verbatim>\<open>_extract_text_from_url\<close>
  returns what \<^verbatim>\<open>_download_pdf_text\<close> gives, which has no low-content check. Here the
  downloaded PDF yields three characters; they are returned and no warning is among the
  effects.
\<close>

theorem downloaded_pdf_low_content_has_no_warning:
  "length (map of_char ''abc'' :: pystr) < 50 \<and>
   extract_text_from_url sample_env ''https://arxiv.org/abs/1234.5678'' sample_world =
     (Inr (map of_char ''abc'', None),
      \<lparr>rate_file = Parsed (JArr [JNum 7000]),
       events = [Say_downloading ''https://arxiv.org/pdf/1234.5678'',
                 Http_get ''https://arxiv.org/pdf/1234.5678'' JNull]\<rparr>)"
  by (simp add: extract_text_from_url_def rewrite_example download_pdf_text_def sample_env_def
      sample_world_def get_proxy_def get_proxy_url_def no_proxy_config_def emit_def ok_def
      strip_def py_isspace_def Let_def)

section \<open>Properties of the pipeline\<close>

text \<open>
  C8: when the rate-limit check and the acquisition have succeeded and the service
  answers with HTTP 429, another status that is not a success, or a success without a
  summary, \<^verbatim>\<open>main\<close> exits with status 1 and the history file is as before; when every
  answer of the service is such a failure, no run succeeds or changes the file; and a
  run that changes the file has had a successful \<^verbatim>\<open>summarize_content\<close> and changed the
  file by the \<^verbatim>\<open>record_request\<close> that follows it.
\<close>

theorem api_failure_aborts_before_record_request:
  "(arg_input a \<noteq> [] \<and>
    check_rate_limit (time_at_check env) w = (Inr (), w1) \<and>
    acquire (env\<lparr>PROXY_FORCE := arg_use_proxy a\<rparr>) (arg_input a) w1 =
      (Inr (content, title, url), w2) \<and>
    get_proxy (arg_use_proxy a) (proxy_file env) (random_draw env) = Inr proxies \<and>
    requests_post env content proxies = Inr resp \<and> api_failure resp \<longrightarrow>
      fst (main env a w) = Inl (SystemExit 1) \<and> rate_file (snd (main env a w)) = rate_file w) \<and>
   ((\<forall>c p resp. requests_post env c p = Inr resp \<longrightarrow> api_failure resp) \<longrightarrow>
      (\<exists>e. fst (main env a w) = Inl e) \<and> rate_file (snd (main env a w)) = rate_file w) \<and>
   (rate_file (snd (main env a w)) \<noteq> rate_file w \<longrightarrow>
      (\<exists>c w2 summary w3.
         summarize_content (env\<lparr>PROXY_FORCE := arg_use_proxy a\<rparr>) c (arg_debug a) w2 =
           (Inr summary, w3) \<and>
         rate_file w3 = rate_file w \<and>
         rate_file (snd (main env a w)) =
           rate_file (snd (record_request (time_at_record env) w3))))"
proof (intro conjI impI)
  assume "arg_input a \<noteq> [] \<and>
    check_rate_limit (time_at_check env) w = (Inr (), w1) \<and>
    acquire (env\<lparr>PROXY_FORCE := arg_use_proxy a\<rparr>) (arg_input a) w1 =
      (Inr (content, title, url), w2) \<and>
    get_proxy (arg_use_proxy a) (proxy_file env) (random_draw env) = Inr proxies \<and>
    requests_post env content proxies = Inr resp \<and> api_failure resp"
  then have *: "fst (main env a w) = Inl (SystemExit 1) \<and>
                rate_file (snd (main env a w)) = rate_file w"
    using main_api_failure by blast
  from * show "fst (main env a w) = Inl (SystemExit 1)" by simp
  from * show "rate_file (snd (main env a w)) = rate_file w" by simp
next
  assume all: "\<forall>c p resp. requests_post env c p = Inr resp \<longrightarrow> api_failure resp"
  have "\<And>c w2. \<exists>e. fst (summarize_content (env\<lparr>PROXY_FORCE := arg_use_proxy a\<rparr>) c
                            (arg_debug a) w2) = Inl e"
    by (rule summarize_all_fail) (use all in simp)
  then have *: "(\<exists>e. fst (main env a w) = Inl e) \<and>
                rate_file (snd (main env a w)) = rate_file w"
    by (rule main_aborts)
  from * show "\<exists>e. fst (main env a w) = Inl e" by simp
  from * show "rate_file (snd (main env a w)) = rate_file w" by simp
next
  assume "rate_file (snd (main env a w)) \<noteq> rate_file w"
  then show "\<exists>c w2 summary w3.
         summarize_content (env\<lparr>PROXY_FORCE := arg_use_proxy a\<rparr>) c (arg_debug a) w2 =
           (Inr summary, w3) \<and>
         rate_file w3 = rate_file w \<and>
         rate_file (snd (main env a w)) =
           rate_file (snd (record_request (time_at_record env) w3))"
    by (rule main_record_only_after_summary)
qed

theorem api_failure_aborts_before_record_request_witness:
  "api_failure \<lparr>post_status = 429, post_json = None\<rparr> \<and>
   fst (main rate_limited_env sample_args sample_world) = Inl (SystemExit 1) \<and>
   rate_file (snd (main rate_limited_env sample_args sample_world)) = rate_file sample_world"
proof -
  let ?w2 = "emit [Probe_path ''paper.pdf'', Probe_path ''paper.pdf'', Stat_path ''paper.pdf'',
                   Say_extracting_pdf ''paper.pdf'', Pdfminer_read ''paper.pdf'',
                   Warn_little_text_pdf] sample_world"
  let ?resp = "\<lparr>post_status = 429, post_json = None\<rparr>"
  have f: "api_failure ?resp"
    by (simp add: api_failure_def)
  have e: "rate_limited_env\<lparr>PROXY_FORCE := arg_use_proxy sample_args\<rparr> = rate_limited_env"
    by (simp add: rate_limited_env_def sample_env_def sample_args_def)
  have q: "acquire rate_limited_env ''paper.pdf'' sample_world =
           (Inr (map of_char ''two words'', None, ''file://paper.pdf''), ?w2)"
    by (simp add: rate_limited_env_def sample_env_def sample_world_def acquire_def
        is_local_file_def startswith_def extract_text_from_pdf_def strip_def py_isspace_def
        emit_def Let_def)
  have h: "arg_input sample_args \<noteq> [] \<and>
     check_rate_limit (time_at_check rate_limited_env) sample_world = (Inr (), sample_world) \<and>
     acquire (rate_limited_env\<lparr>PROXY_FORCE := arg_use_proxy sample_args\<rparr>)
       (arg_input sample_args) sample_world =
       (Inr (map of_char ''two words'', None, ''file://paper.pdf''), ?w2) \<and>
     get_proxy (arg_use_proxy sample_args) (proxy_file rate_limited_env)
       (random_draw rate_limited_env) = Inr JNull \<and>
     requests_post rate_limited_env (map of_char ''two words'') JNull = Inr ?resp \<and>
     api_failure ?resp"
    using f q sample_check sample_get_proxy
    by (simp add: e) (simp add: rate_limited_env_def sample_env_def sample_args_def)
  show ?thesis
    using api_failure_aborts_before_record_request
            [of sample_args rate_limited_env sample_world sample_world
                "map of_char ''two words''" None "''file://paper.pdf''" ?w2 JNull ?resp]
          h f
    by blast
qed

text \<open>
  C10: \<^verbatim>\<open>check_rate_limit\<close> leaves the history file as it found it, whatever the file
  holds and however the call ends, and writes nothing; \<^verbatim>\<open>record_request\<close> writes the pruned
  history followed by now; and a run of \<^verbatim>\<open>main\<close> that changes the file has changed it by
  \<^verbatim>\<open>record_request\<close>.
\<close>

theorem check_rate_limit_leaves_history_file:
  "rate_file (snd (check_rate_limit now w)) = rate_file w \<and>
   (\<forall>ts. Write_rate_limit_file ts \<in> set (events (snd (check_rate_limit now w))) \<longrightarrow>
         Write_rate_limit_file ts \<in> set (events w)) \<and>
   (load_pruned now (rate_file w) = Inr kept \<longrightarrow>
      record_request now w =
        (Inr (), emit [Write_rate_limit_file (kept @ [JNum now])]
                   (w\<lparr>rate_file := Parsed (JArr (kept @ [JNum now]))\<rparr>))) \<and>
   (rate_file (snd (main env a w)) \<noteq> rate_file w \<longrightarrow>
      (\<exists>w3. rate_file w3 = rate_file w \<and>
            rate_file (snd (main env a w)) =
              rate_file (snd (record_request (time_at_record env) w3))))"
proof (intro conjI impI allI)
  show "rate_file (snd (check_rate_limit now w)) = rate_file w"
    by (rule check_rate_limit_file)
next
  fix ts assume "Write_rate_limit_file ts \<in> set (events (snd (check_rate_limit now w)))"
  then show "Write_rate_limit_file ts \<in> set (events w)"
    by (rule check_rate_limit_events)
next
  assume "load_pruned now (rate_file w) = Inr kept"
  then show "record_request now w =
        (Inr (), emit [Write_rate_limit_file (kept @ [JNum now])]
                   (w\<lparr>rate_file := Parsed (JArr (kept @ [JNum now]))\<rparr>))"
    by (simp add: record_request_def Let_def)
next
  assume "rate_file (snd (main env a w)) \<noteq> rate_file w"
  then show "\<exists>w3. rate_file w3 = rate_file w \<and>
            rate_file (snd (main env a w)) =
              rate_file (snd (record_request (time_at_record env) w3))"
    using main_record_only_after_summary by blast
qed

theorem check_rate_limit_leaves_history_file_witness:
  "load_pruned 7260 (rate_file sample_world) = Inr [JNum 7000] \<and>
   rate_file (snd (check_rate_limit 7260 sample_world)) = Parsed (JArr [JNum 7000]) \<and>
   rate_file (snd (record_request 7260 sample_world)) = Parsed (JArr [JNum 7000, JNum 7260]) \<and>
   rate_file (snd (check_rate_limit 7260
       \<lparr>rate_file = Parsed (JStr ''garbage''), events = []\<rparr>)) = Parsed (JStr ''garbage'')"
proof -
  have h: "load_pruned 7260 (rate_file sample_world) = Inr [JNum 7000]"
    by (simp add: sample_world_def load_pruned_def window_def)
  have 1: "rate_file (snd (check_rate_limit 7260 sample_world)) = Parsed (JArr [JNum 7000])"
    using check_rate_limit_leaves_history_file
            [of 7260 sample_world "[JNum 7000]" sample_env sample_args]
    by (simp add: sample_world_def)
  have 2: "rate_file (snd (record_request 7260 sample_world)) =
           Parsed (JArr [JNum 7000, JNum 7260])"
    using check_rate_limit_leaves_history_file
            [of 7260 sample_world "[JNum 7000]" sample_env sample_args] h
    by (simp add: emit_def)
  have 3: "rate_file (snd (check_rate_limit 7260
       \<lparr>rate_file = Parsed (JStr ''garbage''), events = []\<rparr>)) = Parsed (JStr ''garbage'')"
    using check_rate_limit_leaves_history_file
            [of 7260 "\<lparr>rate_file = Parsed (JStr ''garbage''), events = []\<rparr>" "[]"
                sample_env sample_args]
    by simp
  from h 1 2 3 show ?thesis by simp
qed

end
